theory Spec2Isabelle
  imports Main
begin

section \<open>Python values\<close>

text \<open>
  The values that \<^verbatim>\<open>response.json()\<close> can return: \<^verbatim>\<open>None\<close>, \<^verbatim>\<open>bool\<close>,
  \<^verbatim>\<open>int\<close>, \<^verbatim>\<open>float\<close>, \<^verbatim>\<open>str\<close>, \<^verbatim>\<open>list\<close> and \<^verbatim>\<open>dict\<close>. A dict is an association
  list in insertion order, looked up with \<open>map_of\<close>. The client never looks inside a
  float, so the type of floats is left opaque.
\<close>

typedecl float64

datatype json =
    JNull
  | JBool bool
  | JInt int
  | JFloat float64
  | JStr string
  | JArr "json list"
  | JObj "(string \<times> json) list"

text \<open>
  The values the callers pass as \<^verbatim>\<open>api_url\<close>, identifiers, \<^verbatim>\<open>limit\<close> and message content,
  which the client only formats into an f-string or places into the form data.
\<close>

datatype pyval = PNone | PBool bool | PInt int | PStr string

text \<open>
  The exceptions the client can raise. \<open>ValueError\<close> carries its message, \<open>KeyError\<close>
  the missing key. \<open>TypeError\<close> is raised by subscripting or iterating a value that
  does not support it, \<open>JsonError\<close> stands for whatever \<^verbatim>\<open>response.json()\<close> raises on
  a body it cannot decode.
\<close>

datatype error =
    is_ValueError: ValueError string
  | is_KeyError: KeyError string
  | is_TypeError: TypeError
  | is_JsonError: JsonError

definition bind_result :: "error + 'a \<Rightarrow> ('a \<Rightarrow> error + 'b) \<Rightarrow> error + 'b" where
  "bind_result m f = (case m of Inl e \<Rightarrow> Inl e | Inr x \<Rightarrow> f x)"

subsection \<open>\<^verbatim>\<open>str()\<close> of the values formatted into URLs and messages\<close>

definition digit_char :: "nat \<Rightarrow> char" where
  "digit_char d = ''0123456789'' ! d"

fun digits :: "nat \<Rightarrow> string" where
  "digits n = (if n < 10 then [digit_char n] else digits (n div 10) @ [digit_char (n mod 10)])"

declare digits.simps [simp del]

definition str_int :: "int \<Rightarrow> string" where
  "str_int i = (if i < 0 then CHR ''-'' # digits (nat (- i)) else digits (nat i))"

fun py_str :: "pyval \<Rightarrow> string" where
  "py_str PNone = ''None''"
| "py_str (PBool b) = (if b then ''True'' else ''False'')"
| "py_str (PInt i) = str_int i"
| "py_str (PStr s) = s"






subsection \<open>Subscripting and iterating decoded JSON\<close>

text \<open>\<^verbatim>\<open>v[k]\<close> with a string key \<open>k\<close>: only a dict accepts it.\<close>

fun subscript :: "json \<Rightarrow> string \<Rightarrow> error + json" where
  "subscript (JObj kvs) k = (case map_of kvs k of None \<Rightarrow> Inl (KeyError k) | Some v \<Rightarrow> Inr v)"
| "subscript _ k = Inl TypeError"

text \<open>
  \<^verbatim>\<open>for x in v\<close>: a list yields its elements, a dict its keys, a string its
  characters; nothing else is iterable.
\<close>

fun iter :: "json \<Rightarrow> error + json list" where
  "iter (JArr xs) = Inr xs"
| "iter (JObj kvs) = Inr (map (\<lambda>kv. JStr (fst kv)) kvs)"
| "iter (JStr s) = Inr (map (\<lambda>c. JStr [c]) s)"
| "iter _ = Inl TypeError"

text \<open>\<^verbatim>\<open>[f(x) for x in xs]\<close>: the first element that raises ends the comprehension.\<close>

fun comprehension :: "(json \<Rightarrow> error + 'a) \<Rightarrow> json list \<Rightarrow> error + 'a list" where
  "comprehension f [] = Inr []"
| "comprehension f (x # xs) =
     bind_result (f x) (\<lambda>y. bind_result (comprehension f xs) (\<lambda>ys. Inr (y # ys)))"

section \<open>The records\<close>

record Message =
  Message_id :: json
  content :: json
  author :: json

record User =
  User_id :: json
  username :: json
  discriminator :: json
  avatar :: json

record Channel =
  Channel_id :: json
  name :: json
  channel_type :: json

text \<open>\<^verbatim>\<open>Message(msg["id"], msg["content"], msg["author"]["username"])\<close>, left to right.\<close>

definition Message_of :: "json \<Rightarrow> error + Message" where
  "Message_of msg =
     bind_result (subscript msg ''id'') (\<lambda>i.
     bind_result (subscript msg ''content'') (\<lambda>c.
     bind_result (subscript msg ''author'') (\<lambda>a.
     bind_result (subscript a ''username'') (\<lambda>u.
     Inr \<lparr>Message_id = i, content = c, author = u\<rparr>))))"

text \<open>\<^verbatim>\<open>User(d["id"], d["username"], d["discriminator"], d["avatar"])\<close>.\<close>

definition User_of :: "json \<Rightarrow> error + User" where
  "User_of d =
     bind_result (subscript d ''id'') (\<lambda>i.
     bind_result (subscript d ''username'') (\<lambda>u.
     bind_result (subscript d ''discriminator'') (\<lambda>ds.
     bind_result (subscript d ''avatar'') (\<lambda>a.
     Inr \<lparr>User_id = i, username = u, discriminator = ds, avatar = a\<rparr>))))"

text \<open>\<^verbatim>\<open>Channel(data["id"], data["name"], data["type"])\<close>.\<close>

definition Channel_of :: "json \<Rightarrow> error + Channel" where
  "Channel_of d =
     bind_result (subscript d ''id'') (\<lambda>i.
     bind_result (subscript d ''name'') (\<lambda>n.
     bind_result (subscript d ''type'') (\<lambda>t.
     Inr \<lparr>Channel_id = i, name = n, channel_type = t\<rparr>)))"

section \<open>Requests, responses and the client\<close>

datatype http_method = GET | POST | PUT | DELETE

record request =
  verb :: http_method
  url :: string
  data :: "(string \<times> pyval) list option"

text \<open>
  A response is its status and what \<^verbatim>\<open>await response.json()\<close> gives: \<open>None\<close> when
  the body cannot be decoded.
\<close>

record response =
  status :: int
  body :: "json option"

definition response_json :: "response \<Rightarrow> error + json" where
  "response_json r = (case body r of None \<Rightarrow> Inl JsonError | Some j \<Rightarrow> Inr j)"

text \<open>
  The client: the base URL, the HTTP session (the server's answer to each request) and
  the gateway URL, an attribute that does not exist until \<open>connect\<close> has set it.
\<close>

record DiscordClient =
  api_url :: pyval
  session :: "request \<Rightarrow> response"
  gateway_url :: "json option"

definition init :: "pyval \<Rightarrow> (request \<Rightarrow> response) \<Rightarrow> DiscordClient" where
  "init a s = \<lparr>api_url = a, session = s, gateway_url = None\<rparr>"

text \<open>
  The failure of every operation on the wrong status: \<^verbatim>\<open>raise ValueError(f"{what}: {status}")\<close>.
  The status is the three-digit code of the status line, which \<^verbatim>\<open>str\<close> always converts.
\<close>

definition failed :: "string \<Rightarrow> response \<Rightarrow> error" where
  "failed what r = ValueError (what @ '': '' @ str_int (status r))"

section \<open>The operations\<close>

text \<open>
  Each operation is \<^verbatim>\<open>async with session.<verb>(URL, data=...) as response: BODY\<close>.
  The request it builds is \<open>_request\<close>, the body run on the response is
  \<open>_response\<close>, and the operation is the second applied to the session's answer to
  the first. The URL of a request is written with \<open>py_str\<close>: these definitions describe
  each call from the request on, for arguments that the f-string can format. For the two
  operations with a \<^verbatim>\<open>limit\<close>, \<open>_url\<close> is the evaluation of the f-string itself, which
  can raise, and \<open>_call\<close> is the whole call: the exception of the f-string, or else the
  body run on the session's answer to the GET of that URL.
\<close>

subsection \<open>\<^verbatim>\<open>DiscordClient.connect\<close>\<close>

definition connect_request :: "DiscordClient \<Rightarrow> request" where
  "connect_request self =
     \<lparr>verb = GET, url = py_str (api_url self) @ ''/gateway'', data = None\<rparr>"

text \<open>The result and the client after the call; \<open>connect\<close> returns nothing on success.\<close>

definition connect_response :: "DiscordClient \<Rightarrow> response \<Rightarrow> (error + unit) \<times> DiscordClient" where
  "connect_response self r =
     (if status r = 200 then
        (case response_json r of
           Inl e \<Rightarrow> (Inl e, self)
         | Inr d \<Rightarrow>
            (case subscript d ''url'' of
               Inl e \<Rightarrow> (Inl e, self)
             | Inr u \<Rightarrow> (Inr (), self\<lparr>gateway_url := Some u\<rparr>)))
      else (Inl (failed ''Failed to connect to Discord'' r), self))"

definition connect :: "DiscordClient \<Rightarrow> (error + unit) \<times> DiscordClient" where
  "connect self = connect_response self (session self (connect_request self))"

subsection \<open>\<^verbatim>\<open>DiscordClient.send_message\<close>\<close>

definition send_message_request :: "DiscordClient \<Rightarrow> pyval \<Rightarrow> pyval \<Rightarrow> request" where
  "send_message_request self channel_id message_content =
     \<lparr>verb = POST,
      url = py_str (api_url self) @ ''/channels/'' @ py_str channel_id @ ''/messages'',
      data = Some [(''content'', message_content)]\<rparr>"

definition send_message_response :: "response \<Rightarrow> error + bool" where
  "send_message_response r =
     (if status r = 200 then Inr True else Inl (failed ''Failed to send message'' r))"

definition send_message :: "DiscordClient \<Rightarrow> pyval \<Rightarrow> pyval \<Rightarrow> error + bool" where
  "send_message self channel_id message_content =
     send_message_response (session self (send_message_request self channel_id message_content))"

subsection \<open>\<^verbatim>\<open>DiscordClient.receive_message\<close>\<close>

definition receive_message_request :: "DiscordClient \<Rightarrow> pyval \<Rightarrow> request" where
  "receive_message_request self channel_id =
     \<lparr>verb = GET,
      url = py_str (api_url self) @ ''/channels/'' @ py_str channel_id @ ''/messages'',
      data = None\<rparr>"

definition receive_message_response :: "response \<Rightarrow> error + Message" where
  "receive_message_response r =
     (if status r = 200 then bind_result (response_json r) Message_of
      else Inl (failed ''Failed to receive message'' r))"

definition receive_message :: "DiscordClient \<Rightarrow> pyval \<Rightarrow> error + Message" where
  "receive_message self channel_id =
     receive_message_response (session self (receive_message_request self channel_id))"

subsection \<open>\<^verbatim>\<open>DiscordClient.edit_message\<close>\<close>

definition edit_message_request :: "DiscordClient \<Rightarrow> pyval \<Rightarrow> pyval \<Rightarrow> pyval \<Rightarrow> request" where
  "edit_message_request self channel_id message_id message_content =
     \<lparr>verb = PUT,
      url = py_str (api_url self) @ ''/channels/'' @ py_str channel_id @ ''/messages/''
            @ py_str message_id,
      data = Some [(''content'', message_content)]\<rparr>"

definition edit_message_response :: "response \<Rightarrow> error + bool" where
  "edit_message_response r =
     (if status r = 200 then Inr True else Inl (failed ''Failed to edit message'' r))"

definition edit_message :: "DiscordClient \<Rightarrow> pyval \<Rightarrow> pyval \<Rightarrow> pyval \<Rightarrow> error + bool" where
  "edit_message self channel_id message_id message_content =
     edit_message_response
       (session self (edit_message_request self channel_id message_id message_content))"

subsection \<open>\<^verbatim>\<open>DiscordClient.delete_message\<close>\<close>

definition delete_message_request :: "DiscordClient \<Rightarrow> pyval \<Rightarrow> pyval \<Rightarrow> request" where
  "delete_message_request self channel_id message_id =
     \<lparr>verb = DELETE,
      url = py_str (api_url self) @ ''/channels/'' @ py_str channel_id @ ''/messages/''
            @ py_str message_id,
      data = None\<rparr>"

definition delete_message_response :: "response \<Rightarrow> error + bool" where
  "delete_message_response r =
     (if status r = 204 then Inr True else Inl (failed ''Failed to delete message'' r))"

definition delete_message :: "DiscordClient \<Rightarrow> pyval \<Rightarrow> pyval \<Rightarrow> error + bool" where
  "delete_message self channel_id message_id =
     delete_message_response (session self (delete_message_request self channel_id message_id))"

subsection \<open>\<^verbatim>\<open>DiscordClient.get_user_info\<close>\<close>

definition get_user_info_request :: "DiscordClient \<Rightarrow> pyval \<Rightarrow> request" where
  "get_user_info_request self user_id =
     \<lparr>verb = GET, url = py_str (api_url self) @ ''/users/'' @ py_str user_id, data = None\<rparr>"

definition get_user_info_response :: "response \<Rightarrow> error + User" where
  "get_user_info_response r =
     (if status r = 200 then bind_result (response_json r) User_of
      else Inl (failed ''Failed to get user info'' r))"

definition get_user_info :: "DiscordClient \<Rightarrow> pyval \<Rightarrow> error + User" where
  "get_user_info self user_id =
     get_user_info_response (session self (get_user_info_request self user_id))"

subsection \<open>\<^verbatim>\<open>DiscordClient.get_channel_info\<close>\<close>

definition get_channel_info_request :: "DiscordClient \<Rightarrow> pyval \<Rightarrow> request" where
  "get_channel_info_request self channel_id =
     \<lparr>verb = GET, url = py_str (api_url self) @ ''/channels/'' @ py_str channel_id,
      data = None\<rparr>"

definition get_channel_info_response :: "response \<Rightarrow> error + Channel" where
  "get_channel_info_response r =
     (if status r = 200 then bind_result (response_json r) Channel_of
      else Inl (failed ''Failed to get channel info'' r))"

definition get_channel_info :: "DiscordClient \<Rightarrow> pyval \<Rightarrow> error + Channel" where
  "get_channel_info self channel_id =
     get_channel_info_response (session self (get_channel_info_request self channel_id))"

subsection \<open>\<^verbatim>\<open>fetch_channel_messages\<close>\<close>

text \<open>An omitted \<^verbatim>\<open>limit\<close> argument is \<open>None\<close>; the parameter then takes its default.\<close>

definition limit_default :: "pyval option \<Rightarrow> pyval" where
  "limit_default limit_arg = (case limit_arg of None \<Rightarrow> PInt 10 | Some l \<Rightarrow> l)"

definition fetch_channel_messages_request ::
    "DiscordClient \<Rightarrow> pyval \<Rightarrow> pyval option \<Rightarrow> request" where
  "fetch_channel_messages_request client channel_id limit_arg =
     \<lparr>verb = GET,
      url = py_str (api_url client) @ ''/channels/'' @ py_str channel_id
            @ ''/messages?limit='' @ py_str (limit_default limit_arg),
      data = None\<rparr>"

definition fetch_channel_messages_response :: "response \<Rightarrow> error + Message list" where
  "fetch_channel_messages_response r =
     (if status r = 200 then
        bind_result (response_json r) (\<lambda>d. bind_result (iter d) (comprehension Message_of))
      else Inl (failed ''Failed to fetch channel messages'' r))"

definition fetch_channel_messages ::
    "DiscordClient \<Rightarrow> pyval \<Rightarrow> pyval option \<Rightarrow> error + Message list" where
  "fetch_channel_messages client channel_id limit_arg =
     fetch_channel_messages_response
       (session client (fetch_channel_messages_request client channel_id limit_arg))"



subsection \<open>\<^verbatim>\<open>get_user_messages\<close>\<close>

definition get_user_messages_request ::
    "DiscordClient \<Rightarrow> pyval \<Rightarrow> pyval option \<Rightarrow> request" where
  "get_user_messages_request client user_id limit_arg =
     \<lparr>verb = GET,
      url = py_str (api_url client) @ ''/users/'' @ py_str user_id
            @ ''/messages?limit='' @ py_str (limit_default limit_arg),
      data = None\<rparr>"

definition get_user_messages_response :: "response \<Rightarrow> error + Message list" where
  "get_user_messages_response r =
     (if status r = 200 then
        bind_result (response_json r) (\<lambda>d. bind_result (iter d) (comprehension Message_of))
      else Inl (failed ''Failed to fetch user messages'' r))"

definition get_user_messages ::
    "DiscordClient \<Rightarrow> pyval \<Rightarrow> pyval option \<Rightarrow> error + Message list" where
  "get_user_messages client user_id limit_arg =
     get_user_messages_response
       (session client (get_user_messages_request client user_id limit_arg))"



subsection \<open>\<^verbatim>\<open>get_user_friends\<close>\<close>

definition get_user_friends_request :: "DiscordClient \<Rightarrow> pyval \<Rightarrow> request" where
  "get_user_friends_request client user_id =
     \<lparr>verb = GET, url = py_str (api_url client) @ ''/users/'' @ py_str user_id @ ''/friends'',
      data = None\<rparr>"

definition get_user_friends_response :: "response \<Rightarrow> error + User list" where
  "get_user_friends_response r =
     (if status r = 200 then
        bind_result (response_json r) (\<lambda>d. bind_result (iter d) (comprehension User_of))
      else Inl (failed ''Failed to fetch user friends'' r))"

definition get_user_friends :: "DiscordClient \<Rightarrow> pyval \<Rightarrow> error + User list" where
  "get_user_friends client user_id =
     get_user_friends_response (session client (get_user_friends_request client user_id))"

subsection \<open>\<^verbatim>\<open>create_channel\<close>\<close>

definition create_channel_request :: "DiscordClient \<Rightarrow> pyval \<Rightarrow> pyval \<Rightarrow> request" where
  "create_channel_request client nm ctype =
     \<lparr>verb = POST, url = py_str (api_url client) @ ''/channels'',
      data = Some [(''name'', nm), (''type'', ctype)]\<rparr>"

definition create_channel_response :: "response \<Rightarrow> error + Channel" where
  "create_channel_response r =
     (if status r = 201 then bind_result (response_json r) Channel_of
      else Inl (failed ''Failed to create channel'' r))"

definition create_channel :: "DiscordClient \<Rightarrow> pyval \<Rightarrow> pyval \<Rightarrow> error + Channel" where
  "create_channel client nm ctype =
     create_channel_response (session client (create_channel_request client nm ctype))"

section \<open>Shapes of response bodies\<close>

text \<open>
  The vocabulary in which the properties speak about a decoded body. \<open>field j k\<close> is the
  field \<open>k\<close> of a JSON object; anything that is not an object has no field.
\<close>

definition field :: "json \<Rightarrow> string \<Rightarrow> json option" where
  "field j k = (case j of JObj kvs \<Rightarrow> map_of kvs k | _ \<Rightarrow> None)"

text \<open>
  A well-formed message body is a JSON object with the fields \<open>id\<close> and \<open>content\<close> and a
  nested \<open>author\<close> object with the field \<open>username\<close>; \<open>message_fields\<close> also names the
  three values.
\<close>

definition message_fields :: "json \<Rightarrow> json \<Rightarrow> json \<Rightarrow> json \<Rightarrow> bool" where
  "message_fields j i c u =
     (field j ''id'' = Some i \<and> field j ''content'' = Some c
      \<and> (case field j ''author'' of None \<Rightarrow> False | Some a \<Rightarrow> field a ''username'' = Some u))"

definition is_message_json :: "json \<Rightarrow> bool" where
  "is_message_json j =
     (field j ''id'' \<noteq> None \<and> field j ''content'' \<noteq> None
      \<and> (case field j ''author'' of None \<Rightarrow> False | Some a \<Rightarrow> field a ''username'' \<noteq> None))"

text \<open>
  The same for a user body (\<open>id\<close>, \<open>username\<close>, \<open>discriminator\<close>, \<open>avatar\<close>) and a
  channel body (\<open>id\<close>, \<open>name\<close>, \<open>type\<close>).
\<close>

definition user_fields :: "json \<Rightarrow> json \<Rightarrow> json \<Rightarrow> json \<Rightarrow> json \<Rightarrow> bool" where
  "user_fields j i u d a =
     (field j ''id'' = Some i \<and> field j ''username'' = Some u
      \<and> field j ''discriminator'' = Some d \<and> field j ''avatar'' = Some a)"

definition is_user_json :: "json \<Rightarrow> bool" where
  "is_user_json j =
     (field j ''id'' \<noteq> None \<and> field j ''username'' \<noteq> None
      \<and> field j ''discriminator'' \<noteq> None \<and> field j ''avatar'' \<noteq> None)"

definition channel_fields :: "json \<Rightarrow> json \<Rightarrow> json \<Rightarrow> json \<Rightarrow> bool" where
  "channel_fields j i n t =
     (field j ''id'' = Some i \<and> field j ''name'' = Some n \<and> field j ''type'' = Some t)"

definition is_channel_json :: "json \<Rightarrow> bool" where
  "is_channel_json j =
     (field j ''id'' \<noteq> None \<and> field j ''name'' \<noteq> None \<and> field j ''type'' \<noteq> None)"

text \<open>
  \<open>body_satisfies P r\<close> says that the body of \<open>r\<close> decodes to a JSON value with the
  property \<open>P\<close>; \<open>is_array_of P\<close> is a JSON array whose elements all have \<open>P\<close>;
  \<open>array_matches R ys\<close> is a JSON array related to the list \<open>ys\<close> element by element;
  \<open>is_empty_iterable\<close> is the empty object or the empty string.
\<close>

definition body_satisfies :: "(json \<Rightarrow> bool) \<Rightarrow> response \<Rightarrow> bool" where
  "body_satisfies P r = (case body r of None \<Rightarrow> False | Some j \<Rightarrow> P j)"

definition is_array_of :: "(json \<Rightarrow> bool) \<Rightarrow> json \<Rightarrow> bool" where
  "is_array_of P j = (case j of JArr js \<Rightarrow> list_all P js | _ \<Rightarrow> False)"

definition array_matches :: "(json \<Rightarrow> 'a \<Rightarrow> bool) \<Rightarrow> 'a list \<Rightarrow> json \<Rightarrow> bool" where
  "array_matches R ys j = (case j of JArr js \<Rightarrow> list_all2 R js ys | _ \<Rightarrow> False)"

definition is_empty_iterable :: "json \<Rightarrow> bool" where
  "is_empty_iterable j = (case j of JObj kvs \<Rightarrow> kvs = [] | JStr s \<Rightarrow> s = [] | _ \<Rightarrow> False)"

section \<open>Example inputs\<close>

text \<open>A session whose server gives the same answer to every request, and clients on it.\<close>

definition always :: "int \<Rightarrow> json option \<Rightarrow> request \<Rightarrow> response" where
  "always st b = (\<lambda>_. \<lparr>status = st, body = b\<rparr>)"

definition client_404 :: DiscordClient where
  "client_404 = init (PStr ''https://api.example'') (always 404 None)"

definition client_200 :: DiscordClient where
  "client_200 = init (PStr ''https://api.example'') (always 200 None)"

definition client_204 :: DiscordClient where
  "client_204 = init (PStr ''https://api.example'') (always 204 None)"

definition channel_body :: json where
  "channel_body = JObj [(''id'', JStr ''1''), (''name'', JStr ''general''), (''type'', JStr ''text'')]"

definition client_201 :: DiscordClient where
  "client_201 = init (PStr ''https://api.example'') (always 201 (Some channel_body))"

definition gateway_body :: json where
  "gateway_body = JObj [(''url'', JStr ''wss://gateway.example'')]"

definition client_gateway :: DiscordClient where
  "client_gateway = init (PStr ''https://api.example'') (always 200 (Some gateway_body))"

definition message_body_1 :: json where
  "message_body_1 = JObj [(''id'', JStr ''m1''), (''content'', JStr ''hello''),
     (''author'', JObj [(''id'', JInt 9), (''username'', JStr ''alice'')])]"

definition message_body_2 :: json where
  "message_body_2 = JObj [(''id'', JStr ''m2''), (''content'', JStr ''bye''),
     (''author'', JObj [(''id'', JInt 4), (''username'', JStr ''bob'')])]"

definition client_message :: DiscordClient where
  "client_message = init (PStr ''https://api.example'') (always 200 (Some message_body_1))"

definition client_messages :: DiscordClient where
  "client_messages = init (PStr ''https://api.example'')
     (always 200 (Some (JArr [message_body_1, message_body_2])))"

definition client_empty_array :: DiscordClient where
  "client_empty_array = init (PStr ''https://api.example'') (always 200 (Some (JArr [])))"

definition client_empty_object :: DiscordClient where
  "client_empty_object = init (PStr ''https://api.example'') (always 200 (Some (JObj [])))"

definition user_body :: json where
  "user_body = JObj [(''id'', JInt 5), (''username'', JStr ''alice''),
     (''discriminator'', JStr ''0042''), (''avatar'', JStr ''a1b2'')]"

definition user_body_no_avatar :: json where
  "user_body_no_avatar = JObj [(''id'', JInt 5), (''username'', JStr ''alice''),
     (''discriminator'', JStr ''0042'')]"

definition message_body_no_author :: json where
  "message_body_no_author = JObj [(''id'', JStr ''m3''), (''content'', JStr ''hm'')]"

definition client_no_avatar :: DiscordClient where
  "client_no_avatar = init (PStr ''https://api.example'') (always 200 (Some user_body_no_avatar))"

definition client_created_no_avatar :: DiscordClient where
  "client_created_no_avatar
     = init (PStr ''https://api.example'') (always 201 (Some user_body_no_avatar))"

definition client_no_author :: DiscordClient where
  "client_no_author = init (PStr ''https://api.example'')
     (always 200 (Some (JArr [message_body_1, message_body_no_author])))"

definition client_user :: DiscordClient where
  "client_user = init (PStr ''https://api.example'') (always 200 (Some user_body))"

definition client_friends :: DiscordClient where
  "client_friends = init (PStr ''https://api.example'') (always 200 (Some (JArr [user_body])))"

definition client_channel :: DiscordClient where
  "client_channel = init (PStr ''https://api.example'') (always 200 (Some channel_body))"


section \<open>Properties\<close>

lemmas op_defs = connect_def connect_response_def send_message_def send_message_response_def
  receive_message_def receive_message_response_def edit_message_def edit_message_response_def
  delete_message_def delete_message_response_def get_user_info_def get_user_info_response_def
  get_channel_info_def get_channel_info_response_def fetch_channel_messages_def
  fetch_channel_messages_response_def get_user_messages_def get_user_messages_response_def
  get_user_friends_def get_user_friends_response_def create_channel_def
  create_channel_response_def

lemma session_init [simp]: "session (init a s) = s"
  by (simp add: init_def)

lemma always_apply [simp]: "always st b rq = \<lparr>status = st, body = b\<rparr>"
  by (simp add: always_def)

subsection \<open>Any status but the success status fails\<close>

text \<open>
  Claim C1. Whatever the operation (connect, send_message, receive_message, edit_message,
  delete_message, get_user_info, get_channel_info, fetch_channel_messages,
  get_user_messages, get_user_friends, create_channel), when the server's answer to the
  operation's request has a status other than the operation's success status (204 for
  delete_message, 201 for create_channel, 200 for the others), the operation raises: its
  result is an error and holds no value, so no Message, User or Channel is returned.
\<close>

theorem wrong_status_fails:
  "(status (session c (connect_request c)) \<noteq> 200 \<longrightarrow> isl (fst (connect c)))
   \<and> (status (session c (send_message_request c ch mc)) \<noteq> 200 \<longrightarrow> isl (send_message c ch mc))
   \<and> (status (session c (receive_message_request c ch)) \<noteq> 200 \<longrightarrow> isl (receive_message c ch))
   \<and> (status (session c (edit_message_request c ch mid mc)) \<noteq> 200
        \<longrightarrow> isl (edit_message c ch mid mc))
   \<and> (status (session c (delete_message_request c ch mid)) \<noteq> 204
        \<longrightarrow> isl (delete_message c ch mid))
   \<and> (status (session c (get_user_info_request c uid)) \<noteq> 200 \<longrightarrow> isl (get_user_info c uid))
   \<and> (status (session c (get_channel_info_request c ch)) \<noteq> 200
        \<longrightarrow> isl (get_channel_info c ch))
   \<and> (status (session c (fetch_channel_messages_request c ch lim)) \<noteq> 200
        \<longrightarrow> isl (fetch_channel_messages c ch lim))
   \<and> (status (session c (get_user_messages_request c uid lim)) \<noteq> 200
        \<longrightarrow> isl (get_user_messages c uid lim))
   \<and> (status (session c (get_user_friends_request c uid)) \<noteq> 200
        \<longrightarrow> isl (get_user_friends c uid))
   \<and> (status (session c (create_channel_request c nm ty)) \<noteq> 201
        \<longrightarrow> isl (create_channel c nm ty))"
  by (simp add: op_defs)

theorem wrong_status_fails_witness:
  "status (session client_404 (connect_request client_404)) \<noteq> 200
   \<and> isl (fst (connect client_404))
   \<and> isl (send_message client_404 (PInt 7) (PStr ''hi''))
   \<and> isl (receive_message client_404 (PInt 7))
   \<and> isl (edit_message client_404 (PInt 7) (PInt 3) (PStr ''hi''))
   \<and> status (session client_404 (delete_message_request client_404 (PInt 7) (PInt 3))) \<noteq> 204
   \<and> isl (delete_message client_404 (PInt 7) (PInt 3))
   \<and> isl (get_user_info client_404 (PInt 5))
   \<and> isl (get_channel_info client_404 (PInt 7))
   \<and> isl (fetch_channel_messages client_404 (PInt 7) None)
   \<and> isl (get_user_messages client_404 (PInt 5) None)
   \<and> isl (get_user_friends client_404 (PInt 5))
   \<and> status (session client_404
        (create_channel_request client_404 (PStr ''general'') (PStr ''text''))) \<noteq> 201
   \<and> isl (create_channel client_404 (PStr ''general'') (PStr ''text''))"
  using wrong_status_fails [of client_404 "PInt 7" "PStr ''hi''" "PInt 3" "PInt 5" None
      "PStr ''general''" "PStr ''text''"]
  by (simp add: client_404_def)

lemma subscript_field:
  "subscript j k = Inr v \<longleftrightarrow> field j k = Some v"
  by (cases j) (auto simp: field_def split: option.splits)

lemma subscript_fieldI: "field j k = Some v \<Longrightarrow> subscript j k = Inr v"
  by (simp add: subscript_field)

subsection \<open>\<open>delete_message\<close> succeeds on 204 only\<close>

text \<open>
  Claim C2. \<open>delete_message\<close> succeeds (returns \<open>True\<close>) if and only if the status of
  the response is 204. Every other status makes it fail, 200 included, although
  \<open>send_message\<close> and \<open>edit_message\<close> succeed on 200.
\<close>

theorem delete_message_only_204:
  "(delete_message c ch mid = Inr True
      \<longleftrightarrow> status (session c (delete_message_request c ch mid)) = 204)
   \<and> (status (session c (delete_message_request c ch mid)) \<noteq> 204
        \<longrightarrow> isl (delete_message c ch mid))
   \<and> (status (session c (delete_message_request c ch mid)) = 200
        \<longrightarrow> isl (delete_message c ch mid))
   \<and> (status (session c (send_message_request c ch mc)) = 200
        \<longrightarrow> send_message c ch mc = Inr True)
   \<and> (status (session c (edit_message_request c ch mid mc)) = 200
        \<longrightarrow> edit_message c ch mid mc = Inr True)"
proof -
  let ?r = "session c (delete_message_request c ch mid)"
  have del: "delete_message c ch mid = delete_message_response ?r"
    by (simp add: delete_message_def)
  show ?thesis
  proof (cases "status ?r = 204")
    case True
    then show ?thesis
      by (simp add: del delete_message_response_def send_message_def send_message_response_def
          edit_message_def edit_message_response_def)
  next
    case False
    then show ?thesis
      by (simp add: del delete_message_response_def send_message_def send_message_response_def
          edit_message_def edit_message_response_def)
  qed
qed

theorem delete_message_only_204_witness:
  "delete_message client_204 (PInt 7) (PInt 3) = Inr True
   \<and> status (session client_204 (delete_message_request client_204 (PInt 7) (PInt 3))) = 204
   \<and> status (session client_200 (delete_message_request client_200 (PInt 7) (PInt 3))) = 200
   \<and> isl (delete_message client_200 (PInt 7) (PInt 3))
   \<and> delete_message client_200 (PInt 7) (PInt 3) \<noteq> Inr True
   \<and> send_message client_200 (PInt 7) (PStr ''hi'') = Inr True
   \<and> edit_message client_200 (PInt 7) (PInt 3) (PStr ''hi'') = Inr True"
  using delete_message_only_204 [of client_204 "PInt 7" "PInt 3" "PStr ''hi''"]
    delete_message_only_204 [of client_200 "PInt 7" "PInt 3" "PStr ''hi''"]
  by (simp add: client_200_def client_204_def)

subsection \<open>\<open>create_channel\<close> decodes the created channel\<close>

text \<open>
  Claim C4. When the response to \<open>create_channel\<close> has status 201 and its body is a JSON
  object with the fields \<open>id\<close>, \<open>name\<close> and \<open>type\<close>, the operation returns the Channel
  whose \<open>id\<close>, \<open>name\<close> and \<open>channel_type\<close> are exactly those three values. With any
  status other than 201 the operation fails.
\<close>

theorem create_channel_decodes:
  "(session c (create_channel_request c nm ty) = r \<and> status r = 201 \<and> body r = Some j
      \<and> field j ''id'' = Some i \<and> field j ''name'' = Some n \<and> field j ''type'' = Some t
     \<longrightarrow> create_channel c nm ty = Inr \<lparr>Channel_id = i, name = n, channel_type = t\<rparr>)
   \<and> (status (session c (create_channel_request c nm ty)) \<noteq> 201
     \<longrightarrow> isl (create_channel c nm ty))"
proof (intro conjI impI)
  assume a: "session c (create_channel_request c nm ty) = r \<and> status r = 201 \<and> body r = Some j
      \<and> field j ''id'' = Some i \<and> field j ''name'' = Some n \<and> field j ''type'' = Some t"
  then have "Channel_of j = Inr \<lparr>Channel_id = i, name = n, channel_type = t\<rparr>"
    by (simp add: Channel_of_def bind_result_def subscript_fieldI)
  with a show "create_channel c nm ty = Inr \<lparr>Channel_id = i, name = n, channel_type = t\<rparr>"
    by (simp add: create_channel_def create_channel_response_def response_json_def
        bind_result_def)
next
  assume "status (session c (create_channel_request c nm ty)) \<noteq> 201"
  then show "isl (create_channel c nm ty)"
    by (simp add: create_channel_def create_channel_response_def)
qed

theorem create_channel_decodes_witness:
  "create_channel client_201 (PStr ''general'') (PStr ''text'')
     = Inr \<lparr>Channel_id = JStr ''1'', name = JStr ''general'', channel_type = JStr ''text''\<rparr>
   \<and> status (session client_404
        (create_channel_request client_404 (PStr ''general'') (PStr ''text''))) \<noteq> 201
   \<and> isl (create_channel client_404 (PStr ''general'') (PStr ''text''))"
  using create_channel_decodes [of client_201 "PStr ''general''" "PStr ''text''"
      "\<lparr>status = 201, body = Some channel_body\<rparr>" channel_body "JStr ''1''" "JStr ''general''"
      "JStr ''text''"]
    create_channel_decodes [of client_404 "PStr ''general''" "PStr ''text''"]
  by (simp add: client_201_def client_404_def field_def channel_body_def)

subsection \<open>\<open>connect\<close> stores the gateway URL\<close>

text \<open>
  Claim C6. When the response to \<open>connect\<close> has status 200 and its body is a JSON object
  with a field \<open>url\<close>, \<open>connect\<close> succeeds and the gateway URL of the client afterwards
  is exactly the value of that field.
\<close>

theorem connect_stores_url:
  "session c (connect_request c) = r \<and> status r = 200 \<and> body r = Some j
      \<and> field j ''url'' = Some u
   \<longrightarrow> fst (connect c) = Inr () \<and> gateway_url (snd (connect c)) = Some u"
  by (auto simp: connect_def connect_response_def response_json_def subscript_fieldI)

theorem connect_stores_url_witness:
  "fst (connect client_gateway) = Inr ()
   \<and> gateway_url (snd (connect client_gateway)) = Some (JStr ''wss://gateway.example'')"
  using connect_stores_url [of client_gateway "\<lparr>status = 200, body = Some gateway_body\<rparr>"
      gateway_body "JStr ''wss://gateway.example''"]
  by (simp add: client_gateway_def field_def gateway_body_def)

subsection \<open>A failed \<open>connect\<close> leaves the client as it was\<close>

lemma connect_response_cases:
  "connect_response c r = (e, c') \<Longrightarrow> c' = c \<or> (status r = 200 \<and> \<not> isl e \<and> (\<exists>u. c' = c\<lparr>gateway_url := Some u\<rparr>))"
  by (simp add: connect_response_def split: if_splits sum.splits) auto

lemma gateway_url_client_gateway: "gateway_url client_gateway = None"
  by (simp add: client_gateway_def init_def)

lemma session_client_gateway:
  "session client_gateway rq = \<lparr>status = 200, body = Some gateway_body\<rparr>"
  by (simp add: client_gateway_def)

lemma connect_client_gateway:
  "connect client_gateway
     = (Inr (), client_gateway\<lparr>gateway_url := Some (JStr ''wss://gateway.example'')\<rparr>)"
  by (simp add: connect_def connect_response_def session_client_gateway response_json_def
      gateway_body_def)

lemma gateway_url_changed: "gateway_url c = None \<Longrightarrow> c\<lparr>gateway_url := Some x\<rparr> \<noteq> c"
proof
  assume n: "gateway_url c = None" and e: "c\<lparr>gateway_url := Some x\<rparr> = c"
  from e have "gateway_url (c\<lparr>gateway_url := Some x\<rparr>) = gateway_url c"
    by (rule arg_cong)
  with n show False by simp
qed

lemma session_client_404: "session client_404 rq = \<lparr>status = 404, body = None\<rparr>"
  by (simp add: client_404_def)

text \<open>
  Claim C10. When the response to \<open>connect\<close> has a status other than 200, the client is
  unchanged: the gateway URL is neither set nor modified (a fresh client still has none
  after the failed call) and \<open>api_url\<close> is untouched. More generally every failing
  \<open>connect\<close> leaves the client unchanged, a changed client implies status 200, and
  \<open>connect\<close> never touches \<open>api_url\<close> or the session.
\<close>

theorem connect_failure_keeps_state:
  "(status (session c (connect_request c)) \<noteq> 200 \<longrightarrow> snd (connect c) = c)
   \<and> (status (session (init a s) (connect_request (init a s))) \<noteq> 200
        \<longrightarrow> gateway_url (snd (connect (init a s))) = None)
   \<and> (isl (fst (connect c)) \<longrightarrow> snd (connect c) = c)
   \<and> (snd (connect c) \<noteq> c \<longrightarrow> status (session c (connect_request c)) = 200)
   \<and> api_url (snd (connect c)) = api_url c
   \<and> session (snd (connect c)) = session c"
proof -
  obtain e c' where ec: "connect c = (e, c')"
    by (cases "connect c")
  then have "connect_response c (session c (connect_request c)) = (e, c')"
    by (simp add: connect_def)
  from connect_response_cases [OF this]
  have cases: "c' = c \<or> (status (session c (connect_request c)) = 200 \<and> \<not> isl e
      \<and> (\<exists>u. c' = c\<lparr>gateway_url := Some u\<rparr>))" .
  have bad: "status r \<noteq> 200 \<Longrightarrow> snd (connect_response d r) = d" for d r
    by (simp add: connect_response_def)
  have 1: "status (session c (connect_request c)) \<noteq> 200 \<longrightarrow> snd (connect c) = c"
    by (simp add: connect_def bad)
  have 2: "status (session (init a s) (connect_request (init a s))) \<noteq> 200
        \<longrightarrow> gateway_url (snd (connect (init a s))) = None"
    by (simp add: connect_def bad) (simp add: init_def)
  have 3: "isl (fst (connect c)) \<longrightarrow> snd (connect c) = c"
    using cases by (auto simp: ec)
  have 4: "snd (connect c) \<noteq> c \<longrightarrow> status (session c (connect_request c)) = 200"
    using cases by (auto simp: ec)
  have 5: "api_url (snd (connect c)) = api_url c"
    using cases by (auto simp: ec)
  have 6: "session (snd (connect c)) = session c"
    using cases by (auto simp: ec)
  from 1 2 3 4 5 6 show ?thesis by blast
qed

theorem connect_failure_keeps_state_witness:
  "status (session client_404 (connect_request client_404)) \<noteq> 200
   \<and> isl (fst (connect client_404))
   \<and> snd (connect client_404) = client_404
   \<and> gateway_url (snd (connect (init (PStr ''https://api.example'') (always 404 None)))) = None
   \<and> snd (connect client_gateway) \<noteq> client_gateway
   \<and> status (session client_gateway (connect_request client_gateway)) = 200"
proof -
  have a: "status (session client_404 (connect_request client_404)) \<noteq> 200"
    by (simp add: session_client_404)
  have b: "status (session (init (PStr ''https://api.example'') (always 404 None))
      (connect_request (init (PStr ''https://api.example'') (always 404 None)))) \<noteq> 200"
    by simp
  have c: "isl (fst (connect client_404))"
    by (simp add: connect_def connect_response_def session_client_404)
  have d: "snd (connect client_gateway) \<noteq> client_gateway"
    by (simp add: connect_client_gateway gateway_url_changed gateway_url_client_gateway)
  from a b c d
    connect_failure_keeps_state [of client_404 "PStr ''https://api.example''" "always 404 None"]
    connect_failure_keeps_state [of client_gateway]
  show ?thesis by blast
qed

subsection \<open>Decoding messages\<close>

lemma bind_result_Inr_iff:
  "bind_result m f = Inr y \<longleftrightarrow> (\<exists>x. m = Inr x \<and> f x = Inr y)"
  by (cases m) (simp_all add: bind_result_def)

lemma bind_result_Inr [simp]: "bind_result (Inr x) f = f x"
  by (simp add: bind_result_def)

lemma bind_result_Inl [simp]: "bind_result (Inl e) f = Inl e"
  by (simp add: bind_result_def)

lemma Message_of_iff:
  "Message_of j = Inr m \<longleftrightarrow> message_fields j (Message_id m) (content m) (author m)"
proof
  assume "Message_of j = Inr m"
  then obtain i c a u where "field j ''id'' = Some i" "field j ''content'' = Some c"
    "field j ''author'' = Some a" "field a ''username'' = Some u"
    "m = \<lparr>Message_id = i, content = c, author = u\<rparr>"
    by (auto simp: Message_of_def bind_result_Inr_iff subscript_field)
  then show "message_fields j (Message_id m) (content m) (author m)"
    by (simp add: message_fields_def)
next
  assume "message_fields j (Message_id m) (content m) (author m)"
  then obtain a where "field j ''id'' = Some (Message_id m)"
    "field j ''content'' = Some (content m)"
    "field j ''author'' = Some a" "field a ''username'' = Some (author m)"
    by (auto simp: message_fields_def split: option.splits)
  then show "Message_of j = Inr m"
    by (simp add: Message_of_def subscript_fieldI)
qed

lemma comprehension_Inr_iff:
  "comprehension f xs = Inr ys \<longleftrightarrow> list_all2 (\<lambda>x y. f x = Inr y) xs ys"
proof (induction xs arbitrary: ys)
  case Nil
  then show ?case by auto
next
  case (Cons x xs)
  show ?case
  proof (cases ys)
    case Nil
    then show ?thesis by (auto simp: bind_result_Inr_iff)
  next
    case (Cons y ys')
    with Cons.IH [of ys'] show ?thesis
      by (auto simp: bind_result_Inr_iff)
  qed
qed

lemma is_message_json_iff: "is_message_json j \<longleftrightarrow> (\<exists>i c u. message_fields j i c u)"
  by (auto simp: is_message_json_def message_fields_def split: option.splits)

lemma Message_of_ok_iff: "\<not> isl (Message_of j) \<longleftrightarrow> is_message_json j"
proof
  assume "\<not> isl (Message_of j)"
  then obtain m where "Message_of j = Inr m"
    by (cases "Message_of j") auto
  then show "is_message_json j"
    unfolding Message_of_iff is_message_json_iff by blast
next
  assume "is_message_json j"
  then obtain i c u where "message_fields j i c u"
    unfolding is_message_json_iff by blast
  then have "Message_of j = Inr \<lparr>Message_id = i, content = c, author = u\<rparr>"
    by (simp add: Message_of_iff)
  then show "\<not> isl (Message_of j)" by simp
qed

lemma messages_response_array:
  assumes "status r = 200" "body r = Some (JArr js)"
  shows "fetch_channel_messages_response r = comprehension Message_of js"
    and "get_user_messages_response r = comprehension Message_of js"
  using assms
  by (simp_all add: fetch_channel_messages_response_def get_user_messages_response_def
      response_json_def)

lemma message_fields_body_1:
  "message_fields message_body_1 (JStr ''m1'') (JStr ''hello'') (JStr ''alice'')"
  by (simp add: message_fields_def field_def message_body_1_def)

lemma message_fields_body_2:
  "message_fields message_body_2 (JStr ''m2'') (JStr ''bye'') (JStr ''bob'')"
  by (simp add: message_fields_def field_def message_body_2_def)

text \<open>
  Claim C5. When the response has status 200 and a well-formed message body,
  \<open>receive_message\<close> returns the Message whose \<open>id\<close> and \<open>content\<close> are the body's \<open>id\<close>
  and \<open>content\<close> fields and whose \<open>author\<close> is the \<open>username\<close> field of the nested
  \<open>author\<close> object. The same holds for each element of the array that
  \<open>fetch_channel_messages\<close> and \<open>get_user_messages\<close> decode: any list of Messages that
  matches the array element by element in these three fields is the list returned.
\<close>

theorem message_field_mapping:
  "(session c (receive_message_request c ch) = r \<and> status r = 200 \<and> body r = Some j
      \<and> message_fields j i ct u
     \<longrightarrow> receive_message c ch = Inr \<lparr>Message_id = i, content = ct, author = u\<rparr>)
   \<and> (session c (fetch_channel_messages_request c ch lim) = r1 \<and> status r1 = 200
      \<and> body r1 = Some (JArr js)
      \<and> list_all2 (\<lambda>j m. message_fields j (Message_id m) (content m) (author m)) js ms
     \<longrightarrow> fetch_channel_messages c ch lim = Inr ms)
   \<and> (session c (get_user_messages_request c uid lim) = r2 \<and> status r2 = 200
      \<and> body r2 = Some (JArr js)
      \<and> list_all2 (\<lambda>j m. message_fields j (Message_id m) (content m) (author m)) js ms
     \<longrightarrow> get_user_messages c uid lim = Inr ms)"
proof (intro conjI impI)
  assume a: "session c (receive_message_request c ch) = r \<and> status r = 200 \<and> body r = Some j
      \<and> message_fields j i ct u"
  then have "Message_of j = Inr \<lparr>Message_id = i, content = ct, author = u\<rparr>"
    by (simp add: Message_of_iff)
  with a show "receive_message c ch = Inr \<lparr>Message_id = i, content = ct, author = u\<rparr>"
    by (simp add: receive_message_def receive_message_response_def response_json_def)
next
  assume a: "session c (fetch_channel_messages_request c ch lim) = r1 \<and> status r1 = 200
      \<and> body r1 = Some (JArr js)
      \<and> list_all2 (\<lambda>j m. message_fields j (Message_id m) (content m) (author m)) js ms"
  then have "comprehension Message_of js = Inr ms"
    by (simp add: comprehension_Inr_iff Message_of_iff)
  with a show "fetch_channel_messages c ch lim = Inr ms"
    by (simp add: fetch_channel_messages_def messages_response_array)
next
  assume a: "session c (get_user_messages_request c uid lim) = r2 \<and> status r2 = 200
      \<and> body r2 = Some (JArr js)
      \<and> list_all2 (\<lambda>j m. message_fields j (Message_id m) (content m) (author m)) js ms"
  then have "comprehension Message_of js = Inr ms"
    by (simp add: comprehension_Inr_iff Message_of_iff)
  with a show "get_user_messages c uid lim = Inr ms"
    by (simp add: get_user_messages_def messages_response_array)
qed

theorem message_field_mapping_witness:
  "receive_message client_message (PInt 7)
     = Inr \<lparr>Message_id = JStr ''m1'', content = JStr ''hello'', author = JStr ''alice''\<rparr>
   \<and> fetch_channel_messages client_messages (PInt 7) None
     = Inr [\<lparr>Message_id = JStr ''m1'', content = JStr ''hello'', author = JStr ''alice''\<rparr>,
            \<lparr>Message_id = JStr ''m2'', content = JStr ''bye'', author = JStr ''bob''\<rparr>]
   \<and> get_user_messages client_messages (PInt 5) None
     = Inr [\<lparr>Message_id = JStr ''m1'', content = JStr ''hello'', author = JStr ''alice''\<rparr>,
            \<lparr>Message_id = JStr ''m2'', content = JStr ''bye'', author = JStr ''bob''\<rparr>]"
  using message_field_mapping [of client_message "PInt 7"
      "\<lparr>status = 200, body = Some message_body_1\<rparr>" message_body_1
      "JStr ''m1''" "JStr ''hello''" "JStr ''alice''"]
    message_field_mapping [of client_messages "PInt 7" _ _ _ _ _ None
      "\<lparr>status = 200, body = Some (JArr [message_body_1, message_body_2])\<rparr>"
      "[message_body_1, message_body_2]"
      "[\<lparr>Message_id = JStr ''m1'', content = JStr ''hello'', author = JStr ''alice''\<rparr>,
        \<lparr>Message_id = JStr ''m2'', content = JStr ''bye'', author = JStr ''bob''\<rparr>]"
      "PInt 5" "\<lparr>status = 200, body = Some (JArr [message_body_1, message_body_2])\<rparr>"]
  by (simp add: client_message_def client_messages_def message_fields_body_1
      message_fields_body_2)

subsection \<open>Arrays of messages\<close>

lemma comprehension_nth:
  assumes "comprehension f xs = Inr ys"
  shows "length ys = length xs \<and> (\<forall>k<length xs. f (xs ! k) = Inr (ys ! k))"
proof -
  from assms have "list_all2 (\<lambda>x y. f x = Inr y) xs ys"
    by (simp add: comprehension_Inr_iff)
  then show ?thesis
    by (simp add: list_all2_conv_all_nth)
qed

lemma comprehension_total:
  "\<forall>x\<in>set xs. \<not> isl (f x) \<Longrightarrow> comprehension f xs = Inr (map (\<lambda>x. projr (f x)) xs)"
proof (induction xs)
  case Nil
  then show ?case by simp
next
  case (Cons x xs)
  then obtain y where "f x = Inr y"
    by (cases "f x") auto
  with Cons show ?case by simp
qed

lemma messages_array_properties:
  assumes res: "res = comprehension Message_of js"
  shows "(js = [] \<longrightarrow> res = Inr [])
     \<and> (res = Inr ms \<longrightarrow>
          length ms = length js \<and> (\<forall>k<length js. Message_of (js ! k) = Inr (ms ! k)))
     \<and> ((\<forall>j\<in>set js. is_message_json j) \<longrightarrow>
          res = Inr (map (\<lambda>j. projr (Message_of j)) js))"
proof (intro conjI impI)
  assume "js = []"
  then show "res = Inr []" by (simp add: res)
next
  assume "res = Inr ms"
  then have "comprehension Message_of js = Inr ms" by (simp add: res)
  from comprehension_nth [OF this] show "length ms = length js" by simp
next
  assume "res = Inr ms"
  then have "comprehension Message_of js = Inr ms" by (simp add: res)
  from comprehension_nth [OF this]
  show "\<forall>k<length js. Message_of (js ! k) = Inr (ms ! k)" by simp
next
  assume "\<forall>j\<in>set js. is_message_json j"
  then have "\<forall>j\<in>set js. \<not> isl (Message_of j)"
    by (simp add: Message_of_ok_iff)
  then show "res = Inr (map (\<lambda>j. projr (Message_of j)) js)"
    unfolding res by (rule comprehension_total)
qed

lemma is_message_json_bodies: "is_message_json message_body_1" "is_message_json message_body_2"
  by (simp_all add: is_message_json_def field_def message_body_1_def message_body_2_def)

lemma Message_of_bodies:
  "Message_of message_body_1
     = Inr \<lparr>Message_id = JStr ''m1'', content = JStr ''hello'', author = JStr ''alice''\<rparr>"
  "Message_of message_body_2
     = Inr \<lparr>Message_id = JStr ''m2'', content = JStr ''bye'', author = JStr ''bob''\<rparr>"
  by (simp_all add: Message_of_iff message_fields_body_1 message_fields_body_2)

text \<open>
  Claim C7. When the response has status 200 and its body is the empty JSON array,
  \<open>fetch_channel_messages\<close> and \<open>get_user_messages\<close> return the empty list, not an error.
  More generally, on status 200 with an array body, a returned list has one Message per
  element of the array, the \<open>k\<close>-th Message decoded from the \<open>k\<close>-th element, and the list
  is returned whenever every element is a well-formed message.
\<close>

theorem message_arrays_in_order:
  "(session c (fetch_channel_messages_request c ch lim) = r1 \<and> status r1 = 200
      \<and> body r1 = Some (JArr js)
     \<longrightarrow> (js = [] \<longrightarrow> fetch_channel_messages c ch lim = Inr [])
       \<and> (fetch_channel_messages c ch lim = Inr ms \<longrightarrow>
            length ms = length js \<and> (\<forall>k<length js. Message_of (js ! k) = Inr (ms ! k)))
       \<and> ((\<forall>j\<in>set js. is_message_json j) \<longrightarrow>
            fetch_channel_messages c ch lim = Inr (map (\<lambda>j. projr (Message_of j)) js)))
   \<and> (session c (get_user_messages_request c uid lim) = r2 \<and> status r2 = 200
      \<and> body r2 = Some (JArr js)
     \<longrightarrow> (js = [] \<longrightarrow> get_user_messages c uid lim = Inr [])
       \<and> (get_user_messages c uid lim = Inr ms \<longrightarrow>
            length ms = length js \<and> (\<forall>k<length js. Message_of (js ! k) = Inr (ms ! k)))
       \<and> ((\<forall>j\<in>set js. is_message_json j) \<longrightarrow>
            get_user_messages c uid lim = Inr (map (\<lambda>j. projr (Message_of j)) js)))"
proof (intro conjI; rule impI)
  assume "session c (fetch_channel_messages_request c ch lim) = r1 \<and> status r1 = 200
      \<and> body r1 = Some (JArr js)"
  then have "fetch_channel_messages c ch lim = comprehension Message_of js"
    by (simp add: fetch_channel_messages_def messages_response_array)
  then show "(js = [] \<longrightarrow> fetch_channel_messages c ch lim = Inr [])
       \<and> (fetch_channel_messages c ch lim = Inr ms \<longrightarrow>
            length ms = length js \<and> (\<forall>k<length js. Message_of (js ! k) = Inr (ms ! k)))
       \<and> ((\<forall>j\<in>set js. is_message_json j) \<longrightarrow>
            fetch_channel_messages c ch lim = Inr (map (\<lambda>j. projr (Message_of j)) js))"
    by (rule messages_array_properties)
next
  assume "session c (get_user_messages_request c uid lim) = r2 \<and> status r2 = 200
      \<and> body r2 = Some (JArr js)"
  then have "get_user_messages c uid lim = comprehension Message_of js"
    by (simp add: get_user_messages_def messages_response_array)
  then show "(js = [] \<longrightarrow> get_user_messages c uid lim = Inr [])
       \<and> (get_user_messages c uid lim = Inr ms \<longrightarrow>
            length ms = length js \<and> (\<forall>k<length js. Message_of (js ! k) = Inr (ms ! k)))
       \<and> ((\<forall>j\<in>set js. is_message_json j) \<longrightarrow>
            get_user_messages c uid lim = Inr (map (\<lambda>j. projr (Message_of j)) js))"
    by (rule messages_array_properties)
qed

theorem message_arrays_in_order_witness:
  "fetch_channel_messages client_empty_array (PInt 7) None = Inr []
   \<and> get_user_messages client_empty_array (PInt 5) None = Inr []
   \<and> fetch_channel_messages client_messages (PInt 7) None
     = Inr [\<lparr>Message_id = JStr ''m1'', content = JStr ''hello'', author = JStr ''alice''\<rparr>,
            \<lparr>Message_id = JStr ''m2'', content = JStr ''bye'', author = JStr ''bob''\<rparr>]
   \<and> get_user_messages client_messages (PInt 5) None
     = Inr [\<lparr>Message_id = JStr ''m1'', content = JStr ''hello'', author = JStr ''alice''\<rparr>,
            \<lparr>Message_id = JStr ''m2'', content = JStr ''bye'', author = JStr ''bob''\<rparr>]
   \<and> length [message_body_1, message_body_2] = 2"
  using message_arrays_in_order [of client_empty_array "PInt 7" None
      "\<lparr>status = 200, body = Some (JArr [])\<rparr>" "[]" "[]" "PInt 5"
      "\<lparr>status = 200, body = Some (JArr [])\<rparr>"]
    message_arrays_in_order [of client_messages "PInt 7" None
      "\<lparr>status = 200, body = Some (JArr [message_body_1, message_body_2])\<rparr>"
      "[message_body_1, message_body_2]"
      "[\<lparr>Message_id = JStr ''m1'', content = JStr ''hello'', author = JStr ''alice''\<rparr>,
        \<lparr>Message_id = JStr ''m2'', content = JStr ''bye'', author = JStr ''bob''\<rparr>]"
      "PInt 5" "\<lparr>status = 200, body = Some (JArr [message_body_1, message_body_2])\<rparr>"]
  by (simp add: client_empty_array_def client_messages_def is_message_json_bodies
      Message_of_bodies)

subsection \<open>The error raised on a wrong status\<close>

lemma str_int_404: "str_int 404 = ''404''"
  by (simp add: str_int_def digits.simps digit_char_def)

text \<open>
  Claim C3 says that a failed \<open>connect\<close> raises a ConnectionError and every other failed
  operation a RequestError carrying the operation's name, two kinds the caller can tell
  apart. The code raises \<open>ValueError\<close> in both cases: on status 404 \<open>connect\<close> and
  \<open>send_message\<close> raise the same kind of exception, and the message of the second names
  the operation in prose (\<open>Failed to send message\<close>), not by its name \<open>send_message\<close>.
\<close>

theorem error_kinds_counterexample:
  "fst (connect client_404) = Inl (ValueError ''Failed to connect to Discord: 404'')
   \<and> send_message client_404 (PInt 7) (PStr ''hi'')
       = Inl (ValueError ''Failed to send message: 404'')
   \<and> is_ValueError (projl (fst (connect client_404)))
   \<and> is_ValueError (projl (send_message client_404 (PInt 7) (PStr ''hi'')))"
  by (simp add: connect_def connect_response_def send_message_def send_message_response_def
      session_client_404 failed_def str_int_404)

text \<open>
  Claim C3, amended. Every operation that receives a status other than its success status
  raises a \<open>ValueError\<close> whose message is a phrase fixed for the operation, a colon, a
  space and the status code in decimal. The kind of the exception is the same for
  \<open>connect\<close> and for the other operations; only the message tells them apart.
\<close>

theorem failure_is_ValueError_with_status:
  "(status (session c (connect_request c)) \<noteq> 200 \<longrightarrow>
      fst (connect c) = Inl (ValueError (''Failed to connect to Discord: ''
        @ str_int (status (session c (connect_request c))))))
   \<and> (status (session c (send_message_request c ch mc)) \<noteq> 200 \<longrightarrow>
      send_message c ch mc = Inl (ValueError (''Failed to send message: ''
        @ str_int (status (session c (send_message_request c ch mc))))))
   \<and> (status (session c (receive_message_request c ch)) \<noteq> 200 \<longrightarrow>
      receive_message c ch = Inl (ValueError (''Failed to receive message: ''
        @ str_int (status (session c (receive_message_request c ch))))))
   \<and> (status (session c (edit_message_request c ch mid mc)) \<noteq> 200 \<longrightarrow>
      edit_message c ch mid mc = Inl (ValueError (''Failed to edit message: ''
        @ str_int (status (session c (edit_message_request c ch mid mc))))))
   \<and> (status (session c (delete_message_request c ch mid)) \<noteq> 204 \<longrightarrow>
      delete_message c ch mid = Inl (ValueError (''Failed to delete message: ''
        @ str_int (status (session c (delete_message_request c ch mid))))))
   \<and> (status (session c (get_user_info_request c uid)) \<noteq> 200 \<longrightarrow>
      get_user_info c uid = Inl (ValueError (''Failed to get user info: ''
        @ str_int (status (session c (get_user_info_request c uid))))))
   \<and> (status (session c (get_channel_info_request c ch)) \<noteq> 200 \<longrightarrow>
      get_channel_info c ch = Inl (ValueError (''Failed to get channel info: ''
        @ str_int (status (session c (get_channel_info_request c ch))))))
   \<and> (status (session c (fetch_channel_messages_request c ch lim)) \<noteq> 200 \<longrightarrow>
      fetch_channel_messages c ch lim = Inl (ValueError (''Failed to fetch channel messages: ''
        @ str_int (status (session c (fetch_channel_messages_request c ch lim))))))
   \<and> (status (session c (get_user_messages_request c uid lim)) \<noteq> 200 \<longrightarrow>
      get_user_messages c uid lim = Inl (ValueError (''Failed to fetch user messages: ''
        @ str_int (status (session c (get_user_messages_request c uid lim))))))
   \<and> (status (session c (get_user_friends_request c uid)) \<noteq> 200 \<longrightarrow>
      get_user_friends c uid = Inl (ValueError (''Failed to fetch user friends: ''
        @ str_int (status (session c (get_user_friends_request c uid))))))
   \<and> (status (session c (create_channel_request c nm ty)) \<noteq> 201 \<longrightarrow>
      create_channel c nm ty = Inl (ValueError (''Failed to create channel: ''
        @ str_int (status (session c (create_channel_request c nm ty))))))"
proof -
  have msg: "failed what r = ValueError (what @ '': '' @ str_int (status r))" for what r
    by (simp add: failed_def)
  show ?thesis
    unfolding op_defs msg by simp
qed

theorem failure_is_ValueError_with_status_witness:
  "status (session client_404 (connect_request client_404)) \<noteq> 200
   \<and> fst (connect client_404) = Inl (ValueError ''Failed to connect to Discord: 404'')
   \<and> send_message client_404 (PInt 7) (PStr ''hi'')
       = Inl (ValueError ''Failed to send message: 404'')
   \<and> receive_message client_404 (PInt 7) = Inl (ValueError ''Failed to receive message: 404'')
   \<and> edit_message client_404 (PInt 7) (PInt 3) (PStr ''hi'')
       = Inl (ValueError ''Failed to edit message: 404'')
   \<and> delete_message client_404 (PInt 7) (PInt 3)
       = Inl (ValueError ''Failed to delete message: 404'')
   \<and> get_user_info client_404 (PInt 5) = Inl (ValueError ''Failed to get user info: 404'')
   \<and> get_channel_info client_404 (PInt 7) = Inl (ValueError ''Failed to get channel info: 404'')
   \<and> fetch_channel_messages client_404 (PInt 7) None
       = Inl (ValueError ''Failed to fetch channel messages: 404'')
   \<and> get_user_messages client_404 (PInt 5) None
       = Inl (ValueError ''Failed to fetch user messages: 404'')
   \<and> get_user_friends client_404 (PInt 5) = Inl (ValueError ''Failed to fetch user friends: 404'')
   \<and> create_channel client_404 (PStr ''general'') (PStr ''text'')
       = Inl (ValueError ''Failed to create channel: 404'')"
  using failure_is_ValueError_with_status [of client_404 "PInt 7" "PStr ''hi''" "PInt 3" "PInt 5"
      None "PStr ''general''" "PStr ''text''"]
  by (simp add: session_client_404 str_int_404)

subsection \<open>The \<open>limit\<close> parameter\<close>



























subsection \<open>Bodies that do not have the expected shape\<close>

lemma User_of_iff:
  "User_of j = Inr u \<longleftrightarrow> user_fields j (User_id u) (username u) (discriminator u) (avatar u)"
proof
  assume "User_of j = Inr u"
  then obtain i n d a where "field j ''id'' = Some i" "field j ''username'' = Some n"
    "field j ''discriminator'' = Some d" "field j ''avatar'' = Some a"
    "u = \<lparr>User_id = i, username = n, discriminator = d, avatar = a\<rparr>"
    by (auto simp: User_of_def bind_result_Inr_iff subscript_field)
  then show "user_fields j (User_id u) (username u) (discriminator u) (avatar u)"
    by (simp add: user_fields_def)
next
  assume "user_fields j (User_id u) (username u) (discriminator u) (avatar u)"
  then show "User_of j = Inr u"
    by (simp add: user_fields_def User_of_def subscript_fieldI)
qed

lemma Channel_of_iff:
  "Channel_of j = Inr ch \<longleftrightarrow> channel_fields j (Channel_id ch) (name ch) (channel_type ch)"
proof
  assume "Channel_of j = Inr ch"
  then obtain i n t where "field j ''id'' = Some i" "field j ''name'' = Some n"
    "field j ''type'' = Some t" "ch = \<lparr>Channel_id = i, name = n, channel_type = t\<rparr>"
    by (auto simp: Channel_of_def bind_result_Inr_iff subscript_field)
  then show "channel_fields j (Channel_id ch) (name ch) (channel_type ch)"
    by (simp add: channel_fields_def)
next
  assume "channel_fields j (Channel_id ch) (name ch) (channel_type ch)"
  then show "Channel_of j = Inr ch"
    by (simp add: channel_fields_def Channel_of_def subscript_fieldI)
qed

lemma message_fields_is_message_json: "message_fields j i c u \<Longrightarrow> is_message_json j"
  unfolding is_message_json_iff by blast

lemma user_fields_is_user_json: "user_fields j i u d a \<Longrightarrow> is_user_json j"
  by (simp add: user_fields_def is_user_json_def)

lemma channel_fields_is_channel_json: "channel_fields j i n t \<Longrightarrow> is_channel_json j"
  by (simp add: channel_fields_def is_channel_json_def)

lemma field_JStr [simp]: "field (JStr s) k = None"
  by (simp add: field_def)

lemma decode_JStr:
  "Message_of (JStr s) \<noteq> Inr m" "User_of (JStr s) \<noteq> Inr u"
  by (simp_all add: Message_of_iff message_fields_def User_of_iff user_fields_def)

lemma json_body_Inr_iff:
  "bind_result (response_json r) f = Inr y \<longleftrightarrow> body_satisfies (\<lambda>j. f j = Inr y) r"
  by (cases "body r") (simp_all add: response_json_def body_satisfies_def)

lemma body_satisfies_mono:
  "body_satisfies P r \<Longrightarrow> (\<And>j. P j \<Longrightarrow> Q j) \<Longrightarrow> body_satisfies Q r"
  by (cases "body r") (simp_all add: body_satisfies_def)

lemma not_Inr_isl: "(\<And>y. x \<noteq> Inr y) \<Longrightarrow> isl x"
  by (cases x) auto

lemma iterated_Inr_iff:
  assumes str: "\<And>s y. f (JStr s) \<noteq> Inr y"
  shows "bind_result (iter j) (comprehension f) = Inr ys
     \<longleftrightarrow> array_matches (\<lambda>x y. f x = Inr y) ys j \<or> (ys = [] \<and> is_empty_iterable j)"
proof (cases j)
  case (JArr js)
  then show ?thesis
    by (simp add: array_matches_def is_empty_iterable_def comprehension_Inr_iff)
next
  case (JObj kvs)
  show ?thesis
  proof (cases kvs)
    case Nil
    with JObj show ?thesis
      by (auto simp: array_matches_def is_empty_iterable_def)
  next
    case (Cons kv kvs')
    with JObj str show ?thesis
      by (auto simp: array_matches_def is_empty_iterable_def bind_result_Inr_iff)
  qed
next
  case (JStr s)
  show ?thesis
  proof (cases s)
    case Nil
    with JStr show ?thesis
      by (auto simp: array_matches_def is_empty_iterable_def)
  next
    case (Cons ch s')
    with JStr str show ?thesis
      by (auto simp: array_matches_def is_empty_iterable_def bind_result_Inr_iff)
  qed
qed (simp_all add: array_matches_def is_empty_iterable_def)

lemma receive_message_response_Inr_iff:
  "receive_message_response r = Inr m \<longleftrightarrow> status r = 200
     \<and> body_satisfies (\<lambda>j. message_fields j (Message_id m) (content m) (author m)) r"
  by (simp add: receive_message_response_def json_body_Inr_iff Message_of_iff)

lemma get_user_info_response_Inr_iff:
  "get_user_info_response r = Inr u \<longleftrightarrow> status r = 200
     \<and> body_satisfies (\<lambda>j. user_fields j (User_id u) (username u) (discriminator u) (avatar u)) r"
  by (simp add: get_user_info_response_def json_body_Inr_iff User_of_iff)

lemma get_channel_info_response_Inr_iff:
  "get_channel_info_response r = Inr ch \<longleftrightarrow> status r = 200
     \<and> body_satisfies (\<lambda>j. channel_fields j (Channel_id ch) (name ch) (channel_type ch)) r"
  by (simp add: get_channel_info_response_def json_body_Inr_iff Channel_of_iff)

lemma create_channel_response_Inr_iff:
  "create_channel_response r = Inr ch \<longleftrightarrow> status r = 201
     \<and> body_satisfies (\<lambda>j. channel_fields j (Channel_id ch) (name ch) (channel_type ch)) r"
  by (simp add: create_channel_response_def json_body_Inr_iff Channel_of_iff)

lemma body_satisfies_disj:
  "body_satisfies (\<lambda>j. P j \<or> Q j) r \<longleftrightarrow> body_satisfies P r \<or> body_satisfies Q r"
  by (cases "body r") (simp_all add: body_satisfies_def)

lemma body_satisfies_conj_const:
  "body_satisfies (\<lambda>j. A \<and> Q j) r \<longleftrightarrow> A \<and> body_satisfies Q r"
  by (cases "body r") (simp_all add: body_satisfies_def)

lemma messages_Inr_iff:
  "bind_result (response_json r) (\<lambda>d. bind_result (iter d) (comprehension Message_of)) = Inr ms
    \<longleftrightarrow> body_satisfies (array_matches
           (\<lambda>j m. message_fields j (Message_id m) (content m) (author m)) ms) r
        \<or> (ms = [] \<and> body_satisfies is_empty_iterable r)"
proof -
  have "bind_result (iter j) (comprehension Message_of) = Inr ms
     \<longleftrightarrow> array_matches (\<lambda>x y. Message_of x = Inr y) ms j \<or> (ms = [] \<and> is_empty_iterable j)"
    for j
    by (rule iterated_Inr_iff) (rule decode_JStr)
  then show ?thesis
    by (simp add: json_body_Inr_iff body_satisfies_disj body_satisfies_conj_const Message_of_iff)
qed

lemma users_Inr_iff:
  "bind_result (response_json r) (\<lambda>d. bind_result (iter d) (comprehension User_of)) = Inr us
    \<longleftrightarrow> body_satisfies (array_matches
           (\<lambda>j u. user_fields j (User_id u) (username u) (discriminator u) (avatar u)) us) r
        \<or> (us = [] \<and> body_satisfies is_empty_iterable r)"
proof -
  have "bind_result (iter j) (comprehension User_of) = Inr us
     \<longleftrightarrow> array_matches (\<lambda>x y. User_of x = Inr y) us j \<or> (us = [] \<and> is_empty_iterable j)"
    for j
    by (rule iterated_Inr_iff) (rule decode_JStr)
  then show ?thesis
    by (simp add: json_body_Inr_iff body_satisfies_disj body_satisfies_conj_const User_of_iff)
qed

lemma list_all2_list_all: "list_all2 R xs ys \<Longrightarrow> (\<And>x y. R x y \<Longrightarrow> P x) \<Longrightarrow> list_all P xs"
  by (induction xs ys rule: list_all2_induct) auto

lemma array_matches_is_array_of:
  "array_matches R ys j \<Longrightarrow> (\<And>x y. R x y \<Longrightarrow> P x) \<Longrightarrow> is_array_of P j"
  by (cases j) (auto simp: array_matches_def is_array_of_def intro: list_all2_list_all)

lemma record_response_fails:
  assumes "\<And>y. h r = Inr y \<Longrightarrow> body_satisfies (Q y) r"
    and "\<And>y j. Q y j \<Longrightarrow> P j"
    and "\<not> body_satisfies P r"
  shows "isl (h r)"
proof (rule not_Inr_isl)
  fix y
  show "h r \<noteq> Inr y"
  proof
    assume "h r = Inr y"
    then have "body_satisfies (Q y) r" by (rule assms(1))
    then have "body_satisfies P r"
      by (rule body_satisfies_mono) (rule assms(2))
    with assms(3) show False by simp
  qed
qed

lemma list_response_fails:
  assumes "\<And>ys. h r = Inr ys \<Longrightarrow>
      body_satisfies (array_matches R ys) r \<or> (ys = [] \<and> body_satisfies is_empty_iterable r)"
    and "\<And>x y. R x y \<Longrightarrow> P x"
    and "\<not> body_satisfies (is_array_of P) r"
    and "\<not> body_satisfies is_empty_iterable r"
  shows "isl (h r)"
proof (rule not_Inr_isl)
  fix ys
  show "h r \<noteq> Inr ys"
  proof
    assume "h r = Inr ys"
    from assms(1) [OF this] assms(4) have "body_satisfies (array_matches R ys) r"
      by blast
    then have "body_satisfies (is_array_of P) r"
      by (rule body_satisfies_mono) (rule array_matches_is_array_of, assumption, rule assms(2))
    with assms(3) show False by simp
  qed
qed

lemma fetch_channel_messages_response_Inr:
  "fetch_channel_messages_response r = Inr ms \<Longrightarrow>
     body_satisfies (array_matches
        (\<lambda>j m. message_fields j (Message_id m) (content m) (author m)) ms) r
     \<or> (ms = [] \<and> body_satisfies is_empty_iterable r)"
  by (simp add: fetch_channel_messages_response_def messages_Inr_iff split: if_splits)

lemma get_user_messages_response_Inr:
  "get_user_messages_response r = Inr ms \<Longrightarrow>
     body_satisfies (array_matches
        (\<lambda>j m. message_fields j (Message_id m) (content m) (author m)) ms) r
     \<or> (ms = [] \<and> body_satisfies is_empty_iterable r)"
  by (simp add: get_user_messages_response_def messages_Inr_iff split: if_splits)

lemma get_user_friends_response_Inr:
  "get_user_friends_response r = Inr us \<Longrightarrow>
     body_satisfies (array_matches
        (\<lambda>j u. user_fields j (User_id u) (username u) (discriminator u) (avatar u)) us) r
     \<or> (us = [] \<and> body_satisfies is_empty_iterable r)"
  by (simp add: get_user_friends_response_def users_Inr_iff split: if_splits)

lemma no_avatar_shapes:
  "\<not> is_message_json user_body_no_avatar" "\<not> is_user_json user_body_no_avatar"
  "\<not> is_channel_json user_body_no_avatar"
  "\<not> is_array_of P user_body_no_avatar" "\<not> is_empty_iterable user_body_no_avatar"
  by (simp_all add: user_body_no_avatar_def is_message_json_def is_user_json_def
      is_channel_json_def is_array_of_def is_empty_iterable_def field_def)

lemma no_author_shapes:
  "\<not> is_message_json message_body_no_author"
  "\<not> is_user_json message_body_1"
  "\<not> is_empty_iterable (JArr js)"
  by (simp_all add: message_body_no_author_def message_body_1_def is_message_json_def
      is_user_json_def is_empty_iterable_def field_def)

lemma body_satisfies_Some [simp]: "body_satisfies P \<lparr>status = st, body = Some j\<rparr> = P j"
  by (simp add: body_satisfies_def)

lemma example_results:
  "receive_message client_message (PInt 7)
     = Inr \<lparr>Message_id = JStr ''m1'', content = JStr ''hello'', author = JStr ''alice''\<rparr>"
  "get_user_info client_user (PInt 5)
     = Inr \<lparr>User_id = JInt 5, username = JStr ''alice'', discriminator = JStr ''0042'',
            avatar = JStr ''a1b2''\<rparr>"
  "get_channel_info client_channel (PInt 7)
     = Inr \<lparr>Channel_id = JStr ''1'', name = JStr ''general'', channel_type = JStr ''text''\<rparr>"
  "create_channel client_201 (PStr ''general'') (PStr ''text'')
     = Inr \<lparr>Channel_id = JStr ''1'', name = JStr ''general'', channel_type = JStr ''text''\<rparr>"
  "fetch_channel_messages client_messages (PInt 7) None
     = Inr [\<lparr>Message_id = JStr ''m1'', content = JStr ''hello'', author = JStr ''alice''\<rparr>,
            \<lparr>Message_id = JStr ''m2'', content = JStr ''bye'', author = JStr ''bob''\<rparr>]"
  "get_user_messages client_messages (PInt 5) None
     = Inr [\<lparr>Message_id = JStr ''m1'', content = JStr ''hello'', author = JStr ''alice''\<rparr>,
            \<lparr>Message_id = JStr ''m2'', content = JStr ''bye'', author = JStr ''bob''\<rparr>]"
  "get_user_friends client_friends (PInt 5)
     = Inr [\<lparr>User_id = JInt 5, username = JStr ''alice'', discriminator = JStr ''0042'',
            avatar = JStr ''a1b2''\<rparr>]"
proof -
  have u: "User_of user_body = Inr \<lparr>User_id = JInt 5, username = JStr ''alice'',
      discriminator = JStr ''0042'', avatar = JStr ''a1b2''\<rparr>"
    by (simp add: User_of_iff user_fields_def field_def user_body_def)
  have ch: "Channel_of channel_body
      = Inr \<lparr>Channel_id = JStr ''1'', name = JStr ''general'', channel_type = JStr ''text''\<rparr>"
    by (simp add: Channel_of_iff channel_fields_def field_def channel_body_def)
  show "receive_message client_message (PInt 7)
     = Inr \<lparr>Message_id = JStr ''m1'', content = JStr ''hello'', author = JStr ''alice''\<rparr>"
    by (simp add: receive_message_def receive_message_response_def response_json_def
        client_message_def Message_of_bodies)
  show "get_user_info client_user (PInt 5)
     = Inr \<lparr>User_id = JInt 5, username = JStr ''alice'', discriminator = JStr ''0042'',
            avatar = JStr ''a1b2''\<rparr>"
    by (simp add: get_user_info_def get_user_info_response_def response_json_def
        client_user_def u)
  show "get_channel_info client_channel (PInt 7)
     = Inr \<lparr>Channel_id = JStr ''1'', name = JStr ''general'', channel_type = JStr ''text''\<rparr>"
    by (simp add: get_channel_info_def get_channel_info_response_def response_json_def
        client_channel_def ch)
  show "create_channel client_201 (PStr ''general'') (PStr ''text'')
     = Inr \<lparr>Channel_id = JStr ''1'', name = JStr ''general'', channel_type = JStr ''text''\<rparr>"
    by (simp add: create_channel_def create_channel_response_def response_json_def
        client_201_def ch)
  show "fetch_channel_messages client_messages (PInt 7) None
     = Inr [\<lparr>Message_id = JStr ''m1'', content = JStr ''hello'', author = JStr ''alice''\<rparr>,
            \<lparr>Message_id = JStr ''m2'', content = JStr ''bye'', author = JStr ''bob''\<rparr>]"
    by (simp add: fetch_channel_messages_def fetch_channel_messages_response_def
        response_json_def client_messages_def Message_of_bodies)
  show "get_user_messages client_messages (PInt 5) None
     = Inr [\<lparr>Message_id = JStr ''m1'', content = JStr ''hello'', author = JStr ''alice''\<rparr>,
            \<lparr>Message_id = JStr ''m2'', content = JStr ''bye'', author = JStr ''bob''\<rparr>]"
    by (simp add: get_user_messages_def get_user_messages_response_def
        response_json_def client_messages_def Message_of_bodies)
  show "get_user_friends client_friends (PInt 5)
     = Inr [\<lparr>User_id = JInt 5, username = JStr ''alice'', discriminator = JStr ''0042'',
            avatar = JStr ''a1b2''\<rparr>]"
    by (simp add: get_user_friends_def get_user_friends_response_def
        response_json_def client_friends_def u)
qed

text \<open>
  Claim C8 says that every operation that decodes a record fails when the response has
  the success status and a body that is malformed or misses a required field. The list
  operations do not: on status 200 with the body \<^verbatim>\<open>{}\<close>, a JSON object without any of
  the required fields and not an array of messages or users, the comprehension iterates
  over no key and \<open>fetch_channel_messages\<close>, \<open>get_user_messages\<close> and \<open>get_user_friends\<close>
  return the empty list instead of failing.
\<close>

theorem malformed_body_counterexample:
  "session client_empty_object
       (fetch_channel_messages_request client_empty_object (PInt 7) None)
     = \<lparr>status = 200, body = Some (JObj [])\<rparr>
   \<and> \<not> is_message_json (JObj []) \<and> \<not> is_user_json (JObj [])
   \<and> \<not> is_array_of is_message_json (JObj []) \<and> \<not> is_array_of is_user_json (JObj [])
   \<and> fetch_channel_messages client_empty_object (PInt 7) None = Inr []
   \<and> get_user_messages client_empty_object (PInt 5) None = Inr []
   \<and> get_user_friends client_empty_object (PInt 5) = Inr []"
  by (simp add: client_empty_object_def is_message_json_def is_user_json_def is_array_of_def
      field_def fetch_channel_messages_def fetch_channel_messages_response_def
      get_user_messages_def get_user_messages_response_def get_user_friends_def
      get_user_friends_response_def response_json_def)

text \<open>
  Claim C8, amended. With the success status, \<open>receive_message\<close>, \<open>get_user_info\<close>,
  \<open>get_channel_info\<close> and \<open>create_channel\<close> fail whenever the body cannot be decoded or
  is not a JSON object with every required field; \<open>fetch_channel_messages\<close>,
  \<open>get_user_messages\<close> and \<open>get_user_friends\<close> fail whenever the body cannot be decoded
  or is not an array whose elements all are such objects, unless it is the empty object
  or the empty string. No operation ever returns a half-populated record: every field of
  a returned Message, User or Channel is the corresponding field of the body (of the
  array element at the same position, for the list operations).
\<close>

theorem malformed_body_fails:
  "(status (session c (receive_message_request c ch)) = 200
      \<and> \<not> body_satisfies is_message_json (session c (receive_message_request c ch))
     \<longrightarrow> isl (receive_message c ch))
   \<and> (status (session c (get_user_info_request c uid)) = 200
      \<and> \<not> body_satisfies is_user_json (session c (get_user_info_request c uid))
     \<longrightarrow> isl (get_user_info c uid))
   \<and> (status (session c (get_channel_info_request c ch)) = 200
      \<and> \<not> body_satisfies is_channel_json (session c (get_channel_info_request c ch))
     \<longrightarrow> isl (get_channel_info c ch))
   \<and> (status (session c (create_channel_request c nm ty)) = 201
      \<and> \<not> body_satisfies is_channel_json (session c (create_channel_request c nm ty))
     \<longrightarrow> isl (create_channel c nm ty))
   \<and> (status (session c (fetch_channel_messages_request c ch lim)) = 200
      \<and> \<not> body_satisfies (is_array_of is_message_json)
            (session c (fetch_channel_messages_request c ch lim))
      \<and> \<not> body_satisfies is_empty_iterable (session c (fetch_channel_messages_request c ch lim))
     \<longrightarrow> isl (fetch_channel_messages c ch lim))
   \<and> (status (session c (get_user_messages_request c uid lim)) = 200
      \<and> \<not> body_satisfies (is_array_of is_message_json)
            (session c (get_user_messages_request c uid lim))
      \<and> \<not> body_satisfies is_empty_iterable (session c (get_user_messages_request c uid lim))
     \<longrightarrow> isl (get_user_messages c uid lim))
   \<and> (status (session c (get_user_friends_request c uid)) = 200
      \<and> \<not> body_satisfies (is_array_of is_user_json) (session c (get_user_friends_request c uid))
      \<and> \<not> body_satisfies is_empty_iterable (session c (get_user_friends_request c uid))
     \<longrightarrow> isl (get_user_friends c uid))
   \<and> (receive_message c ch = Inr m \<longrightarrow>
        body_satisfies (\<lambda>j. message_fields j (Message_id m) (content m) (author m))
          (session c (receive_message_request c ch)))
   \<and> (get_user_info c uid = Inr u \<longrightarrow>
        body_satisfies (\<lambda>j. user_fields j (User_id u) (username u) (discriminator u) (avatar u))
          (session c (get_user_info_request c uid)))
   \<and> (get_channel_info c ch = Inr cn \<longrightarrow>
        body_satisfies (\<lambda>j. channel_fields j (Channel_id cn) (name cn) (channel_type cn))
          (session c (get_channel_info_request c ch)))
   \<and> (create_channel c nm ty = Inr cn \<longrightarrow>
        body_satisfies (\<lambda>j. channel_fields j (Channel_id cn) (name cn) (channel_type cn))
          (session c (create_channel_request c nm ty)))
   \<and> (fetch_channel_messages c ch lim = Inr ms \<longrightarrow>
        body_satisfies (array_matches
            (\<lambda>j m. message_fields j (Message_id m) (content m) (author m)) ms)
          (session c (fetch_channel_messages_request c ch lim))
        \<or> (ms = [] \<and> body_satisfies is_empty_iterable
              (session c (fetch_channel_messages_request c ch lim))))
   \<and> (get_user_messages c uid lim = Inr ms \<longrightarrow>
        body_satisfies (array_matches
            (\<lambda>j m. message_fields j (Message_id m) (content m) (author m)) ms)
          (session c (get_user_messages_request c uid lim))
        \<or> (ms = [] \<and> body_satisfies is_empty_iterable
              (session c (get_user_messages_request c uid lim))))
   \<and> (get_user_friends c uid = Inr us \<longrightarrow>
        body_satisfies (array_matches
            (\<lambda>j u. user_fields j (User_id u) (username u) (discriminator u) (avatar u)) us)
          (session c (get_user_friends_request c uid))
        \<or> (us = [] \<and> body_satisfies is_empty_iterable
              (session c (get_user_friends_request c uid))))"
proof -
  have f1: "\<not> body_satisfies is_message_json r \<Longrightarrow> isl (receive_message_response r)" for r
    by (rule record_response_fails
        [where Q = "\<lambda>m j. message_fields j (Message_id m) (content m) (author m)"])
      (simp_all add: receive_message_response_Inr_iff message_fields_is_message_json)
  have f2: "\<not> body_satisfies is_user_json r \<Longrightarrow> isl (get_user_info_response r)" for r
    by (rule record_response_fails
        [where Q = "\<lambda>u j. user_fields j (User_id u) (username u) (discriminator u) (avatar u)"])
      (simp_all add: get_user_info_response_Inr_iff user_fields_is_user_json)
  have f3: "\<not> body_satisfies is_channel_json r \<Longrightarrow> isl (get_channel_info_response r)" for r
    by (rule record_response_fails
        [where Q = "\<lambda>cn j. channel_fields j (Channel_id cn) (name cn) (channel_type cn)"])
      (simp_all add: get_channel_info_response_Inr_iff channel_fields_is_channel_json)
  have f4: "\<not> body_satisfies is_channel_json r \<Longrightarrow> isl (create_channel_response r)" for r
    by (rule record_response_fails
        [where Q = "\<lambda>cn j. channel_fields j (Channel_id cn) (name cn) (channel_type cn)"])
      (simp_all add: create_channel_response_Inr_iff channel_fields_is_channel_json)
  have f5: "\<not> body_satisfies (is_array_of is_message_json) r
      \<Longrightarrow> \<not> body_satisfies is_empty_iterable r \<Longrightarrow> isl (fetch_channel_messages_response r)" for r
    by (rule list_response_fails [OF fetch_channel_messages_response_Inr])
      (simp_all add: message_fields_is_message_json)
  have f6: "\<not> body_satisfies (is_array_of is_message_json) r
      \<Longrightarrow> \<not> body_satisfies is_empty_iterable r \<Longrightarrow> isl (get_user_messages_response r)" for r
    by (rule list_response_fails [OF get_user_messages_response_Inr])
      (simp_all add: message_fields_is_message_json)
  have f7: "\<not> body_satisfies (is_array_of is_user_json) r
      \<Longrightarrow> \<not> body_satisfies is_empty_iterable r \<Longrightarrow> isl (get_user_friends_response r)" for r
    by (rule list_response_fails [OF get_user_friends_response_Inr])
      (simp_all add: user_fields_is_user_json)
  show ?thesis
    unfolding receive_message_def get_user_info_def get_channel_info_def create_channel_def
      fetch_channel_messages_def get_user_messages_def get_user_friends_def
    by (intro conjI impI)
      (simp_all add: f1 f2 f3 f4 f5 f6 f7 receive_message_response_Inr_iff
        get_user_info_response_Inr_iff get_channel_info_response_Inr_iff
        create_channel_response_Inr_iff fetch_channel_messages_response_Inr
        get_user_messages_response_Inr get_user_friends_response_Inr)
qed

theorem malformed_body_fails_witness:
  "isl (receive_message client_no_avatar (PInt 7))
   \<and> isl (get_user_info client_no_avatar (PInt 5))
   \<and> isl (get_channel_info client_no_avatar (PInt 7))
   \<and> isl (create_channel client_created_no_avatar (PStr ''general'') (PStr ''text''))
   \<and> isl (fetch_channel_messages client_no_author (PInt 7) None)
   \<and> isl (get_user_messages client_no_author (PInt 5) None)
   \<and> isl (get_user_friends client_no_author (PInt 5))
   \<and> isl (fetch_channel_messages client_no_avatar (PInt 7) None)
   \<and> message_fields message_body_1 (JStr ''m1'') (JStr ''hello'') (JStr ''alice'')
   \<and> user_fields user_body (JInt 5) (JStr ''alice'') (JStr ''0042'') (JStr ''a1b2'')
   \<and> channel_fields channel_body (JStr ''1'') (JStr ''general'') (JStr ''text'')
   \<and> list_all2 (\<lambda>j m. message_fields j (Message_id m) (content m) (author m))
        [message_body_1, message_body_2]
        [\<lparr>Message_id = JStr ''m1'', content = JStr ''hello'', author = JStr ''alice''\<rparr>,
         \<lparr>Message_id = JStr ''m2'', content = JStr ''bye'', author = JStr ''bob''\<rparr>]
   \<and> list_all2 (\<lambda>j u. user_fields j (User_id u) (username u) (discriminator u) (avatar u))
        [user_body]
        [\<lparr>User_id = JInt 5, username = JStr ''alice'', discriminator = JStr ''0042'',
          avatar = JStr ''a1b2''\<rparr>]"
proof -
  have a: "session client_no_avatar rq = \<lparr>status = 200, body = Some user_body_no_avatar\<rparr>"
    "session client_created_no_avatar rq = \<lparr>status = 201, body = Some user_body_no_avatar\<rparr>"
    "session client_no_author rq
       = \<lparr>status = 200, body = Some (JArr [message_body_1, message_body_no_author])\<rparr>"
    "session client_message rq = \<lparr>status = 200, body = Some message_body_1\<rparr>"
    "session client_user rq = \<lparr>status = 200, body = Some user_body\<rparr>"
    "session client_channel rq = \<lparr>status = 200, body = Some channel_body\<rparr>"
    "session client_201 rq = \<lparr>status = 201, body = Some channel_body\<rparr>"
    "session client_messages rq
       = \<lparr>status = 200, body = Some (JArr [message_body_1, message_body_2])\<rparr>"
    "session client_friends rq = \<lparr>status = 200, body = Some (JArr [user_body])\<rparr>" for rq
    by (simp_all add: client_no_avatar_def client_created_no_avatar_def client_no_author_def
        client_message_def client_user_def client_channel_def client_201_def
        client_messages_def client_friends_def)
  have b: "\<not> is_array_of is_message_json (JArr [message_body_1, message_body_no_author])"
    "\<not> is_array_of is_user_json (JArr [message_body_1, message_body_no_author])"
    by (simp_all add: is_array_of_def no_author_shapes)
  have bad: "isl (receive_message client_no_avatar (PInt 7))
   \<and> isl (get_user_info client_no_avatar (PInt 5))
   \<and> isl (get_channel_info client_no_avatar (PInt 7))
   \<and> isl (create_channel client_created_no_avatar (PStr ''general'') (PStr ''text''))
   \<and> isl (fetch_channel_messages client_no_author (PInt 7) None)
   \<and> isl (get_user_messages client_no_author (PInt 5) None)
   \<and> isl (get_user_friends client_no_author (PInt 5))
   \<and> isl (fetch_channel_messages client_no_avatar (PInt 7) None)"
    using malformed_body_fails [of client_no_avatar "PInt 7" "PInt 5" _ _ None]
      malformed_body_fails [of client_created_no_avatar _ _ "PStr ''general''" "PStr ''text''"]
      malformed_body_fails [of client_no_author "PInt 7" "PInt 5" _ _ None]
    by (simp add: a b no_avatar_shapes no_author_shapes)
  have good: "message_fields message_body_1 (JStr ''m1'') (JStr ''hello'') (JStr ''alice'')
   \<and> user_fields user_body (JInt 5) (JStr ''alice'') (JStr ''0042'') (JStr ''a1b2'')
   \<and> channel_fields channel_body (JStr ''1'') (JStr ''general'') (JStr ''text'')
   \<and> list_all2 (\<lambda>j m. message_fields j (Message_id m) (content m) (author m))
        [message_body_1, message_body_2]
        [\<lparr>Message_id = JStr ''m1'', content = JStr ''hello'', author = JStr ''alice''\<rparr>,
         \<lparr>Message_id = JStr ''m2'', content = JStr ''bye'', author = JStr ''bob''\<rparr>]
   \<and> list_all2 (\<lambda>j u. user_fields j (User_id u) (username u) (discriminator u) (avatar u))
        [user_body]
        [\<lparr>User_id = JInt 5, username = JStr ''alice'', discriminator = JStr ''0042'',
          avatar = JStr ''a1b2''\<rparr>]"
    using malformed_body_fails [of client_message "PInt 7" _ _ _ _
        "\<lparr>Message_id = JStr ''m1'', content = JStr ''hello'', author = JStr ''alice''\<rparr>"]
      malformed_body_fails [of client_user _ "PInt 5" _ _ _ _
        "\<lparr>User_id = JInt 5, username = JStr ''alice'', discriminator = JStr ''0042'',
          avatar = JStr ''a1b2''\<rparr>"]
      malformed_body_fails [of client_201 _ _ "PStr ''general''" "PStr ''text''" _ _ _
        "\<lparr>Channel_id = JStr ''1'', name = JStr ''general'', channel_type = JStr ''text''\<rparr>"]
      malformed_body_fails [of client_messages "PInt 7" _ _ _ None _ _ _
        "[\<lparr>Message_id = JStr ''m1'', content = JStr ''hello'', author = JStr ''alice''\<rparr>,
          \<lparr>Message_id = JStr ''m2'', content = JStr ''bye'', author = JStr ''bob''\<rparr>]"]
      malformed_body_fails [of client_friends _ "PInt 5" _ _ _ _ _ _ _
        "[\<lparr>User_id = JInt 5, username = JStr ''alice'', discriminator = JStr ''0042'',
           avatar = JStr ''a1b2''\<rparr>]"]
    by (simp add: a example_results array_matches_def is_empty_iterable_def)
  from bad good show ?thesis by blast
qed

end
